theory Spec2Isabelle
  imports Complex_Main
begin

section \<open>Arrays\<close>

text \<open>
  The layers of \<^verbatim>\<open>nn/activations.py\<close> work on numpy arrays. The arrays a caller passes
  to \<^verbatim>\<open>forward\<close> and \<^verbatim>\<open>backward\<close> are the rank-2 tensors of the data model
  (batch by features); they are modelled by the record \<open>matrix\<close>: the two axis lengths
  of \<^verbatim>\<open>shape\<close> and the elements as the nested list \<^verbatim>\<open>tolist()\<close> gives, row by row.
  The element type is \<open>real\<close>: the arithmetic of the model is exact, rounding, overflow
  and the special values of 64-bit floats are outside it.
\<close>

record matrix =
  nrows :: nat
  ncols :: nat
  entries :: "real list list"

text \<open>The array of shape \<open>(r, c)\<close> whose element at \<open>(i, j)\<close> is \<open>f i j\<close>.\<close>

definition array :: "nat \<Rightarrow> nat \<Rightarrow> (nat \<Rightarrow> nat \<Rightarrow> real) \<Rightarrow> matrix" where
  "array r c f = \<lparr>nrows = r, ncols = c, entries = map (\<lambda>i. map (f i) [0..<c]) [0..<r]\<rparr>"

text \<open>\<^verbatim>\<open>a[i, j]\<close>, read only at indices inside the shape.\<close>

definition item :: "matrix \<Rightarrow> nat \<Rightarrow> nat \<Rightarrow> real" where
  "item a i j = entries a ! i ! j"

text \<open>What every numpy array satisfies: the elements fill the shape.\<close>

definition well_shaped :: "matrix \<Rightarrow> bool" where
  "well_shaped a =
     (length (entries a) = nrows a \<and> list_all (\<lambda>row. length row = ncols a) (entries a))"

text \<open>
  \<^verbatim>\<open>np.sum(error, 0)\<close> drops the axis it sums over, so a rank-1 array has to be
  modelled as well: \<open>ndarray\<close> is an array of rank 1 or of rank 2, and \<open>shape\<close> is
  its \<^verbatim>\<open>.shape\<close>.
\<close>

datatype ndarray = Array1 "real list" | Array2 matrix

fun shape :: "ndarray \<Rightarrow> nat list" where
  "shape (Array1 v) = [length v]"
| "shape (Array2 a) = [nrows a, ncols a]"

text \<open>The exceptions the code can raise on these inputs.\<close>

datatype exn = ValueError | TypeError | AttributeError

text \<open>\<^verbatim>\<open>np.zeros((r, c))\<close>.\<close>

definition np_zeros :: "nat \<Rightarrow> nat \<Rightarrow> matrix" where
  "np_zeros r c = array r c (\<lambda>i j. 0)"

text \<open>
  \<^verbatim>\<open>np.dot(a, b)\<close> on two rank-2 arrays is the matrix product; numpy raises ValueError
  (shapes not aligned) unless the second axis of \<open>a\<close> is as long as the first of \<open>b\<close>.
\<close>

definition np_dot :: "matrix \<Rightarrow> matrix \<Rightarrow> exn + matrix" where
  "np_dot a b =
     (if ncols a = nrows b
      then Inr (array (nrows a) (ncols b)
                  (\<lambda>i j. sum_list (map (\<lambda>k. item a i k * item b k j) [0..<ncols a])))
      else Inl ValueError)"

text \<open>\<^verbatim>\<open>a.T\<close>.\<close>

definition transpose_T :: "matrix \<Rightarrow> matrix" where
  "transpose_T a = array (ncols a) (nrows a) (\<lambda>i j. item a j i)"

text \<open>\<^verbatim>\<open>np.sum(a, 0)\<close>: the sums of the columns, as a rank-1 array of length \<open>ncols a\<close>.\<close>

definition np_sum0 :: "matrix \<Rightarrow> ndarray" where
  "np_sum0 a = Array1 (map (\<lambda>j. sum_list (map (\<lambda>i. item a i j) [0..<nrows a])) [0..<ncols a])"

text \<open>
  Broadcasting, as numpy applies it to the operands of \<^verbatim>\<open>+\<close> and \<^verbatim>\<open>*\<close>: two axis
  lengths are compatible when they are equal or one of them is 1, and the axis of length
  1 is read at index 0 throughout. Operands that are not compatible raise ValueError.
\<close>

definition broadcast_axis :: "nat \<Rightarrow> nat \<Rightarrow> exn + nat" where
  "broadcast_axis m n =
     (if m = n then Inr m else if m = 1 then Inr n else if n = 1 then Inr m
      else Inl ValueError)"

definition broadcast_index :: "nat \<Rightarrow> nat \<Rightarrow> nat" where
  "broadcast_index m i = (if m = 1 then 0 else i)"

definition np_binary :: "(real \<Rightarrow> real \<Rightarrow> real) \<Rightarrow> matrix \<Rightarrow> matrix \<Rightarrow> exn + matrix" where
  "np_binary f a b =
     (case broadcast_axis (nrows a) (nrows b) of
        Inl e \<Rightarrow> Inl e
      | Inr r \<Rightarrow>
          (case broadcast_axis (ncols a) (ncols b) of
             Inl e \<Rightarrow> Inl e
           | Inr c \<Rightarrow>
               Inr (array r c
                 (\<lambda>i j. f (item a (broadcast_index (nrows a) i) (broadcast_index (ncols a) j))
                          (item b (broadcast_index (nrows b) i) (broadcast_index (ncols b) j))))))"

definition np_add :: "matrix \<Rightarrow> matrix \<Rightarrow> exn + matrix" where
  "np_add = np_binary (+)"

definition np_multiply :: "matrix \<Rightarrow> matrix \<Rightarrow> exn + matrix" where
  "np_multiply = np_binary (*)"

text \<open>
  An operation between a Python scalar and an array, and a numpy function of one array,
  apply to every element and keep the shape.
\<close>

definition elementwise :: "(real \<Rightarrow> real) \<Rightarrow> matrix \<Rightarrow> matrix" where
  "elementwise f a = array (nrows a) (ncols a) (\<lambda>i j. f (item a i j))"

section \<open>Linear\<close>

text \<open>
  The attributes of a \<^verbatim>\<open>Linear\<close> object. \<^verbatim>\<open>_cached_activations\<close> is \<^verbatim>\<open>None\<close> until a
  forward call stores an array; \<^verbatim>\<open>_bias_gradients\<close> holds the rank-2 zeros of the
  constructor first and the rank-1 result of \<^verbatim>\<open>np.sum\<close> later. The leading underscore
  of the private attributes is dropped.
\<close>

record Linear =
  weights :: matrix
  biases :: matrix
  cached_activations :: "matrix option"
  weight_gradients :: matrix
  bias_gradients :: ndarray

text \<open>
  \<^verbatim>\<open>Linear.__init__\<close>. \<^verbatim>\<open>initialise_weights\<close> lives in \<^verbatim>\<open>nn.weights\<close>, which is not
  part of the sources at hand: it is a parameter of the model.
\<close>

definition Linear_init ::
    "(nat \<times> nat \<Rightarrow> string \<Rightarrow> matrix) \<Rightarrow> nat \<Rightarrow> nat \<Rightarrow> string \<Rightarrow> Linear" where
  "Linear_init initialise_weights in_size out_size initialisation_method =
     (let w = initialise_weights (in_size, out_size) initialisation_method;
          b = np_zeros 1 out_size
      in \<lparr>weights = w, biases = b, cached_activations = None,
          weight_gradients = np_zeros (nrows w) (ncols w),
          bias_gradients = Array2 (np_zeros (nrows b) (ncols b))\<rparr>)"

text \<open>
  A method returns the object as the call leaves it together with its result, an
  exception or the returned array. An exception leaves the attributes assigned before
  it in place.

  \<^verbatim>\<open>Linear.forward\<close>: the sum is computed first and cached only when it exists.
\<close>

definition Linear_forward :: "matrix \<Rightarrow> Linear \<Rightarrow> Linear \<times> (exn + matrix)" where
  "Linear_forward x self =
     (case np_dot x (weights self) of
        Inl e \<Rightarrow> (self, Inl e)
      | Inr d \<Rightarrow>
          (case np_add d (biases self) of
             Inl e \<Rightarrow> (self, Inl e)
           | Inr activations \<Rightarrow>
               (self\<lparr>cached_activations := Some activations\<rparr>, Inr activations)))"

text \<open>
  \<^verbatim>\<open>Linear.backward\<close>: three statements in the order of the source. Reading \<^verbatim>\<open>.T\<close> of
  \<^verbatim>\<open>None\<close> raises AttributeError, after the bias gradients were assigned.
\<close>

definition Linear_backward :: "matrix \<Rightarrow> Linear \<Rightarrow> Linear \<times> (exn + matrix)" where
  "Linear_backward error self =
     (let s1 = self\<lparr>bias_gradients := np_sum0 error\<rparr> in
      case cached_activations s1 of
        None \<Rightarrow> (s1, Inl AttributeError)
      | Some c \<Rightarrow>
          (case np_dot (transpose_T c) error of
             Inl e \<Rightarrow> (s1, Inl e)
           | Inr g \<Rightarrow>
               (let s2 = s1\<lparr>weight_gradients := g\<rparr>
                in (s2, np_dot error (transpose_T (weights s2))))))"

section \<open>Sigmoid\<close>

text \<open>
  \<^verbatim>\<open>Sigmoid\<close> and \<^verbatim>\<open>ReLU\<close> name their one attribute \<^verbatim>\<open>cached_input\<close>, \<^verbatim>\<open>Tanh\<close>
  \<^verbatim>\<open>_cached_input\<close>; the record fields carry the class as a prefix to keep them apart.
\<close>

record Sigmoid =
  sigmoid_cached_input :: "matrix option"

definition Sigmoid_init :: Sigmoid where
  "Sigmoid_init = \<lparr>sigmoid_cached_input = None\<rparr>"

text \<open>
  \<^verbatim>\<open>Sigmoid._sigmoid\<close>: \<^verbatim>\<open>1 / (1 + np.exp(-x))\<close>, one elementwise step after the other.
  The argument is whatever the attribute holds; negating \<^verbatim>\<open>None\<close> raises TypeError.
\<close>

definition Sigmoid_sigmoid :: "matrix option \<Rightarrow> exn + matrix" where
  "Sigmoid_sigmoid x =
     (case x of
        None \<Rightarrow> Inl TypeError
      | Some a \<Rightarrow>
          Inr (elementwise (\<lambda>v. 1 / v)
                (elementwise (\<lambda>v. 1 + v) (elementwise exp (elementwise uminus a)))))"

definition Sigmoid_forward :: "matrix \<Rightarrow> Sigmoid \<Rightarrow> Sigmoid \<times> (exn + matrix)" where
  "Sigmoid_forward x self =
     (let s1 = self\<lparr>sigmoid_cached_input := Some x\<rparr>
      in (s1, Sigmoid_sigmoid (Some x)))"

definition Sigmoid_backward :: "matrix \<Rightarrow> Sigmoid \<Rightarrow> Sigmoid \<times> (exn + matrix)" where
  "Sigmoid_backward error self =
     (case Sigmoid_sigmoid (sigmoid_cached_input self) of
        Inl e \<Rightarrow> (self, Inl e)
      | Inr s \<Rightarrow>
          (case Sigmoid_sigmoid (sigmoid_cached_input self) of
             Inl e \<Rightarrow> (self, Inl e)
           | Inr s' \<Rightarrow>
               (case np_multiply s (elementwise (\<lambda>v. 1 - v) s') of
                  Inl e \<Rightarrow> (self, Inl e)
                | Inr derivative \<Rightarrow> (self, np_multiply error derivative))))"

section \<open>Tanh\<close>

record Tanh =
  tanh_cached_input :: "matrix option"

definition Tanh_init :: Tanh where
  "Tanh_init = \<lparr>tanh_cached_input = None\<rparr>"

text \<open>
  \<^verbatim>\<open>Tanh._tanh\<close>: \<^verbatim>\<open>-1 + 2 / (1 + np.exp(-2 * x))\<close>. Multiplying \<^verbatim>\<open>None\<close> by an int
  raises TypeError.
\<close>

definition Tanh_tanh :: "matrix option \<Rightarrow> exn + matrix" where
  "Tanh_tanh x =
     (case x of
        None \<Rightarrow> Inl TypeError
      | Some a \<Rightarrow>
          Inr (elementwise (\<lambda>v. - 1 + v)
                (elementwise (\<lambda>v. 2 / v)
                  (elementwise (\<lambda>v. 1 + v)
                    (elementwise exp (elementwise (\<lambda>v. - 2 * v) a))))))"

definition Tanh_forward :: "matrix \<Rightarrow> Tanh \<Rightarrow> Tanh \<times> (exn + matrix)" where
  "Tanh_forward x self =
     (let s1 = self\<lparr>tanh_cached_input := Some x\<rparr>
      in (s1, Tanh_tanh (Some x)))"

definition Tanh_backward :: "matrix \<Rightarrow> Tanh \<Rightarrow> Tanh \<times> (exn + matrix)" where
  "Tanh_backward error self =
     (case Tanh_tanh (tanh_cached_input self) of
        Inl e \<Rightarrow> (self, Inl e)
      | Inr t \<Rightarrow>
          (self, np_multiply error (elementwise (\<lambda>v. 1 - v) (elementwise (\<lambda>v. v ^ 2) t))))"

section \<open>ReLU\<close>

record ReLU =
  relu_cached_input :: "matrix option"

definition ReLU_init :: ReLU where
  "ReLU_init = \<lparr>relu_cached_input = None\<rparr>"

definition ReLU_forward :: "matrix \<Rightarrow> ReLU \<Rightarrow> ReLU \<times> (exn + matrix)" where
  "ReLU_forward x self =
     (let s1 = self\<lparr>relu_cached_input := Some x\<rparr>
      in (s1, Inr (elementwise (max 0) x)))"

text \<open>
  \<^verbatim>\<open>ReLU.backward\<close>: \<^verbatim>\<open>error * np.asarray(self.cached_input >= 0, np.float)\<close>. The
  comparison gives an array of booleans, which \<^verbatim>\<open>np.asarray\<close> turns into 1.0 and 0.0
  (\<^verbatim>\<open>np.float\<close> is the alias of \<^verbatim>\<open>float\<close> that numpy had when the code was written).
  Comparing \<^verbatim>\<open>None\<close> with an int raises TypeError in Python 3.
\<close>

definition ReLU_backward :: "matrix \<Rightarrow> ReLU \<Rightarrow> ReLU \<times> (exn + matrix)" where
  "ReLU_backward error self =
     (case relu_cached_input self of
        None \<Rightarrow> (self, Inl TypeError)
      | Some c \<Rightarrow>
          (self, np_multiply error (elementwise (\<lambda>v. if v \<ge> 0 then 1 else 0) c)))"

section \<open>The Activation interface\<close>

text \<open>
  The abstract class \<^verbatim>\<open>Activation\<close> has the four classes above as its implementations;
  a call of \<^verbatim>\<open>forward\<close> or \<^verbatim>\<open>backward\<close> on an \<^verbatim>\<open>Activation\<close> runs the method of the
  object's class.
\<close>

datatype Activation =
    LinearObj Linear
  | SigmoidObj Sigmoid
  | TanhObj Tanh
  | ReLUObj ReLU

fun trainable :: "Activation \<Rightarrow> bool" where
  "trainable (LinearObj s) = True"
| "trainable (SigmoidObj s) = False"
| "trainable (TanhObj s) = False"
| "trainable (ReLUObj s) = False"

fun forward :: "matrix \<Rightarrow> Activation \<Rightarrow> Activation \<times> (exn + matrix)" where
  "forward x (LinearObj s) = map_prod LinearObj id (Linear_forward x s)"
| "forward x (SigmoidObj s) = map_prod SigmoidObj id (Sigmoid_forward x s)"
| "forward x (TanhObj s) = map_prod TanhObj id (Tanh_forward x s)"
| "forward x (ReLUObj s) = map_prod ReLUObj id (ReLU_forward x s)"

fun backward :: "matrix \<Rightarrow> Activation \<Rightarrow> Activation \<times> (exn + matrix)" where
  "backward error (LinearObj s) = map_prod LinearObj id (Linear_backward error s)"
| "backward error (SigmoidObj s) = map_prod SigmoidObj id (Sigmoid_backward error s)"
| "backward error (TanhObj s) = map_prod TanhObj id (Tanh_backward error s)"
| "backward error (ReLUObj s) = map_prod ReLUObj id (ReLU_backward error s)"

text \<open>The cache attribute of an object, whatever its class.\<close>

fun cache :: "Activation \<Rightarrow> matrix option" where
  "cache (LinearObj s) = cached_activations s"
| "cache (SigmoidObj s) = sigmoid_cached_input s"
| "cache (TanhObj s) = tanh_cached_input s"
| "cache (ReLUObj s) = relu_cached_input s"

section \<open>Callers\<close>

text \<open>
  \<^verbatim>\<open>np.array(rows)\<close> for a non-empty nested list whose rows have one length: the
  literal arrays of the examples.
\<close>

definition np_array :: "real list list \<Rightarrow> matrix" where
  "np_array rows =
     \<lparr>nrows = length rows, ncols = (case rows of [] \<Rightarrow> 0 | r # _ \<Rightarrow> length r),
      entries = rows\<rparr>"

text \<open>
  A caller drives a layer by a sequence of calls. \<open>run_Linear\<close> is the \<^verbatim>\<open>Linear\<close> object
  after such a sequence, the caller going on after a call that raised.
\<close>

datatype call = Forward matrix | Backward matrix

fun Linear_call :: "call \<Rightarrow> Linear \<Rightarrow> Linear \<times> (exn + matrix)" where
  "Linear_call (Forward x) self = Linear_forward x self"
| "Linear_call (Backward error) self = Linear_backward error self"

fun run_Linear :: "call list \<Rightarrow> Linear \<Rightarrow> Linear" where
  "run_Linear [] self = self"
| "run_Linear (c # cs) self = run_Linear cs (fst (Linear_call c self))"

section \<open>Basic facts about arrays\<close>

lemma nrows_array: "nrows (array r c f) = r"
  by (simp add: array_def)

lemma ncols_array: "ncols (array r c f) = c"
  by (simp add: array_def)

lemma item_array: "i < r \<Longrightarrow> j < c \<Longrightarrow> item (array r c f) i j = f i j"
  by (simp add: array_def item_def)

lemma well_shaped_array: "well_shaped (array r c f)"
  by (simp add: well_shaped_def array_def list_all_iff)

lemma array_cong:
  assumes "\<And>i j. i < r \<Longrightarrow> j < c \<Longrightarrow> f i j = g i j"
  shows "array r c f = array r c g"
  using assms by (simp add: array_def)

lemma sum_list_upt: "sum_list (map f [0..<n]) = (\<Sum>k<n. f k)"
  by (simp add: interv_sum_list_conv_sum_set_nat atLeast0LessThan)

lemma np_dot_aligned:
  "ncols a = nrows b \<Longrightarrow>
   np_dot a b = Inr (array (nrows a) (ncols b) (\<lambda>i j. \<Sum>k<ncols a. item a i k * item b k j))"
  by (simp add: np_dot_def sum_list_upt)

lemma np_dot_not_aligned: "ncols a \<noteq> nrows b \<Longrightarrow> np_dot a b = Inl ValueError"
  by (simp add: np_dot_def)

lemma broadcast_index_same: "i < m \<Longrightarrow> broadcast_index m i = i"
  by (simp add: broadcast_index_def)

lemma broadcast_axis_same: "broadcast_axis m m = Inr m"
  by (simp add: broadcast_axis_def)

lemma broadcast_axis_one: "broadcast_axis m (Suc 0) = Inr m"
  by (simp add: broadcast_axis_def)

lemma np_binary_same_shape:
  assumes "nrows b = nrows a" "ncols b = ncols a"
  shows "np_binary f a b = Inr (array (nrows a) (ncols a) (\<lambda>i j. f (item a i j) (item b i j)))"
  using assms
  by (auto simp: np_binary_def broadcast_axis_same broadcast_index_same intro!: array_cong)

lemma np_binary_row:
  assumes "nrows b = 1" "ncols b = ncols a"
  shows "np_binary f a b = Inr (array (nrows a) (ncols a) (\<lambda>i j. f (item a i j) (item b 0 j)))"
proof -
  have "item a (broadcast_index (nrows a) i) (broadcast_index (ncols a) j) = item a i j"
    if "i < nrows a" "j < ncols a" for i j
    using that by (simp add: broadcast_index_same)
  moreover have "item b (broadcast_index (nrows b) i) (broadcast_index (ncols b) j) = item b 0 j"
    if "j < ncols a" for i j
    using that assms by (auto simp: broadcast_index_def)
  ultimately have "array (nrows a) (ncols a)
      (\<lambda>i j. f (item a (broadcast_index (nrows a) i) (broadcast_index (ncols a) j))
                (item b (broadcast_index (nrows b) i) (broadcast_index (ncols b) j))) =
      array (nrows a) (ncols a) (\<lambda>i j. f (item a i j) (item b 0 j))"
    by (intro array_cong) simp
  then show ?thesis
    using assms
    by (simp add: np_binary_def broadcast_axis_same broadcast_axis_one)
qed

lemma Linear_forward_result:
  assumes "ncols x = nrows (weights self)"
    and "nrows (biases self) = 1" and "ncols (biases self) = ncols (weights self)"
  shows "Linear_forward x self =
    (let y = array (nrows x) (ncols (weights self))
          (\<lambda>i j. (\<Sum>k<nrows (weights self). item x i k * item (weights self) k j) + item (biases self) 0 j)
     in (self\<lparr>cached_activations := Some y\<rparr>, Inr y))"
proof -
  let ?d = "array (nrows x) (ncols (weights self)) (\<lambda>i j. \<Sum>k<ncols x. item x i k * item (weights self) k j)"
  have d: "np_dot x (weights self) = Inr ?d"
    using assms(1) by (rule np_dot_aligned)
  have "np_add ?d (biases self) =
      Inr (array (nrows ?d) (ncols ?d) (\<lambda>i j. item ?d i j + item (biases self) 0 j))"
    unfolding np_add_def using assms(2,3) by (intro np_binary_row) (simp_all add: ncols_array)
  also have "array (nrows ?d) (ncols ?d) (\<lambda>i j. item ?d i j + item (biases self) 0 j) =
      array (nrows x) (ncols (weights self))
          (\<lambda>i j. (\<Sum>k<nrows (weights self). item x i k * item (weights self) k j) + item (biases self) 0 j)"
    unfolding nrows_array ncols_array using assms(1) by (intro array_cong) (simp add: item_array)
  finally show ?thesis
    by (simp add: Linear_forward_def d Let_def)
qed

section \<open>Linear: the forward pass\<close>

text \<open>
  C4. For a \<^verbatim>\<open>Linear\<close> layer whose weights have shape \<open>(in_size, out_size)\<close> and whose
  biases have shape \<open>(1, out_size)\<close>, and for every input \<open>x\<close> of shape
  \<open>(batch, in_size)\<close>, \<^verbatim>\<open>forward(x)\<close> returns the array of shape \<open>(batch, out_size)\<close>
  whose element \<open>(i, j)\<close> is the \<open>(i, j)\<close> element of the matrix product of \<open>x\<close> and
  the weights plus the bias of column \<open>j\<close>: the one bias row is added to every row of
  the batch.
\<close>

theorem Linear_forward_affine:
  assumes "ncols x = nrows (weights self)"
    and "nrows (biases self) = 1" and "ncols (biases self) = ncols (weights self)"
  shows "snd (Linear_forward x self) =
    Inr (array (nrows x) (ncols (weights self))
          (\<lambda>i j. (\<Sum>k<nrows (weights self). item x i k * item (weights self) k j)
                 + item (biases self) 0 j))"
  using assms by (simp add: Linear_forward_result Let_def)

text \<open>
  The scenario of the specification: weights \<open>[[1], [2]]\<close>, biases \<open>[[0]]\<close>, and the
  input \<open>[[1, 1]]\<close> gives \<open>[[3]]\<close>.
\<close>

theorem Linear_forward_affine_witness:
  "ncols (np_array [[1, 1]]) =
     nrows (weights (Linear_init (\<lambda>shape method. np_array [[1], [2]]) 2 1 ''xavier-average'')) \<and>
   biases (Linear_init (\<lambda>shape method. np_array [[1], [2]]) 2 1 ''xavier-average'') =
     np_array [[0]] \<and>
   snd (Linear_forward (np_array [[1, 1]])
         (Linear_init (\<lambda>shape method. np_array [[1], [2]]) 2 1 ''xavier-average'')) =
     Inr (np_array [[3]])"
  using Linear_forward_affine [of "np_array [[1, 1]]"
      "Linear_init (\<lambda>shape method. np_array [[1], [2]]) 2 1 ''xavier-average''"]
  by (simp add: np_array_def array_def item_def Linear_init_def np_zeros_def Let_def
      lessThan_Suc numeral_2_eq_2)

section \<open>Linear: the backward pass\<close>

lemma nrows_transpose_T: "nrows (transpose_T a) = ncols a"
  by (simp add: transpose_T_def nrows_array)

lemma ncols_transpose_T: "ncols (transpose_T a) = nrows a"
  by (simp add: transpose_T_def ncols_array)

lemma item_transpose_T: "i < ncols a \<Longrightarrow> j < nrows a \<Longrightarrow> item (transpose_T a) i j = item a j i"
  by (simp add: transpose_T_def item_array)

lemma np_dot_transpose_left:
  assumes "nrows c = nrows e"
  shows "np_dot (transpose_T c) e =
    Inr (array (ncols c) (ncols e) (\<lambda>i j. \<Sum>k<nrows c. item c k i * item e k j))"
proof -
  have "ncols (transpose_T c) = nrows e"
    using assms by (simp add: ncols_transpose_T)
  then have "np_dot (transpose_T c) e =
      Inr (array (ncols c) (ncols e)
            (\<lambda>i j. \<Sum>k<nrows c. item (transpose_T c) i k * item e k j))"
    by (simp add: np_dot_aligned nrows_transpose_T ncols_transpose_T)
  moreover have "array (ncols c) (ncols e)
        (\<lambda>i j. \<Sum>k<nrows c. item (transpose_T c) i k * item e k j) =
      array (ncols c) (ncols e) (\<lambda>i j. \<Sum>k<nrows c. item c k i * item e k j)"
    by (intro array_cong sum.cong) (simp_all add: item_transpose_T)
  ultimately show ?thesis by simp
qed

lemma np_dot_transpose_right:
  assumes "ncols e = ncols w"
  shows "np_dot e (transpose_T w) =
    Inr (array (nrows e) (nrows w) (\<lambda>i j. \<Sum>k<ncols w. item e i k * item w j k))"
proof -
  have "ncols e = nrows (transpose_T w)"
    using assms by (simp add: nrows_transpose_T)
  then have "np_dot e (transpose_T w) =
      Inr (array (nrows e) (nrows w)
            (\<lambda>i j. \<Sum>k<ncols w. item e i k * item (transpose_T w) k j))"
    using assms by (simp add: np_dot_aligned nrows_transpose_T ncols_transpose_T)
  moreover have "array (nrows e) (nrows w)
        (\<lambda>i j. \<Sum>k<ncols w. item e i k * item (transpose_T w) k j) =
      array (nrows e) (nrows w) (\<lambda>i j. \<Sum>k<ncols w. item e i k * item w j k)"
    by (intro array_cong sum.cong) (simp_all add: item_transpose_T)
  ultimately show ?thesis by simp
qed

lemma Linear_backward_cached:
  assumes "cached_activations self = Some c" and "nrows c = nrows error"
  shows "Linear_backward error self =
    (self\<lparr>bias_gradients := np_sum0 error,
          weight_gradients :=
            array (ncols c) (ncols error) (\<lambda>i j. \<Sum>k<nrows c. item c k i * item error k j)\<rparr>,
     np_dot error (transpose_T (weights self)))"
  using assms by (simp add: Linear_backward_def Let_def np_dot_transpose_left)

lemma Linear_backward_no_cache:
  assumes "cached_activations self = None"
  shows "Linear_backward error self = (self\<lparr>bias_gradients := np_sum0 error\<rparr>, Inl AttributeError)"
  using assms by (simp add: Linear_backward_def Let_def)

lemma bias_gradients_Linear_backward:
  "bias_gradients (fst (Linear_backward error self)) = np_sum0 error"
  by (simp add: Linear_backward_def Let_def split: option.split sum.split)

lemma Linear_forward_Inr:
  assumes "snd (Linear_forward x self) = Inr y"
  shows "fst (Linear_forward x self) = self\<lparr>cached_activations := Some y\<rparr>"
  using assms by (auto simp: Linear_forward_def split: sum.splits)

lemma Linear_forward_Inr_aligned:
  assumes "snd (Linear_forward x self) = Inr y"
  shows "ncols x = nrows (weights self)"
  using assms by (auto simp: Linear_forward_def np_dot_def split: sum.splits if_splits)

text \<open>
  C2. For a \<^verbatim>\<open>Linear\<close> layer with weights \<open>W\<close> of shape \<open>(in_size, out_size)\<close>, after a
  forward call on a batch of \<open>batch\<close> rows, \<^verbatim>\<open>backward(error)\<close> on an upstream gradient
  of shape \<open>(batch, out_size)\<close> returns the matrix product of \<open>error\<close> and the transpose
  of \<open>W\<close>: the array of shape \<open>(batch, in_size)\<close> whose element \<open>(i, j)\<close> is the sum
  over \<open>k\<close> of \<open>error[i, k] * W[j, k]\<close>.
\<close>

theorem Linear_backward_downstream:
  assumes "ncols x = nrows (weights self)"
    and "nrows (biases self) = 1" and "ncols (biases self) = ncols (weights self)"
    and "nrows error = nrows x" and "ncols error = ncols (weights self)"
  shows "snd (Linear_backward error (fst (Linear_forward x self))) =
    Inr (array (nrows error) (nrows (weights self))
          (\<lambda>i j. \<Sum>k<ncols (weights self). item error i k * item (weights self) j k))"
proof -
  let ?y = "array (nrows x) (ncols (weights self))
          (\<lambda>i j. (\<Sum>k<nrows (weights self). item x i k * item (weights self) k j)
                 + item (biases self) 0 j)"
  let ?s = "fst (Linear_forward x self)"
  have s: "?s = self\<lparr>cached_activations := Some ?y\<rparr>"
    using assms(1-3) by (simp add: Linear_forward_result Let_def)
  have "cached_activations ?s = Some ?y" and "nrows ?y = nrows error" and "weights ?s = weights self"
    using assms(4) by (simp_all add: s nrows_array)
  then have "snd (Linear_backward error ?s) = np_dot error (transpose_T (weights self))"
    by (simp add: Linear_backward_cached)
  then show ?thesis
    using assms(5) by (simp add: np_dot_transpose_right)
qed

text \<open>
  The scenario of the specification: weights \<open>[[1], [2]]\<close>, forward on \<open>[[1, 1]]\<close>, then
  backward on \<open>[[1]]\<close> returns \<open>[[1, 2]]\<close>.
\<close>

theorem Linear_backward_downstream_witness:
  "ncols (np_array [[1, 1]]) =
     nrows (weights (Linear_init (\<lambda>shape method. np_array [[1], [2]]) 2 1 ''xavier-average'')) \<and>
   nrows (np_array [[1]]) = nrows (np_array [[1, 1]]) \<and>
   ncols (np_array [[1]]) =
     ncols (weights (Linear_init (\<lambda>shape method. np_array [[1], [2]]) 2 1 ''xavier-average'')) \<and>
   snd (Linear_backward (np_array [[1]])
         (fst (Linear_forward (np_array [[1, 1]])
           (Linear_init (\<lambda>shape method. np_array [[1], [2]]) 2 1 ''xavier-average'')))) =
     Inr (np_array [[1, 2]])"
  using Linear_backward_downstream [of "np_array [[1, 1]]"
      "Linear_init (\<lambda>shape method. np_array [[1], [2]]) 2 1 ''xavier-average''"
      "np_array [[1]]"]
  by (simp add: np_array_def array_def item_def Linear_init_def np_zeros_def Let_def
      lessThan_Suc numeral_2_eq_2)

text \<open>
  C1, as the code has it. After a forward call that returned \<open>y\<close>, the cache holds \<open>y\<close>,
  the output of the layer and not its input, and \<^verbatim>\<open>backward(error)\<close> on an upstream
  gradient of shape \<open>(batch, out_size)\<close> overwrites the weight gradients with the matrix
  product of the transpose of \<open>y\<close> and \<open>error\<close>. As \<open>y\<close> has shape
  \<open>(batch, out_size)\<close>, the product has shape \<open>(out_size, out_size)\<close>; it has the
  shape \<open>(in_size, out_size)\<close> of the weights only where the two sizes agree.
\<close>

theorem Linear_backward_weight_gradients:
  assumes "snd (Linear_forward x self) = Inr y"
    and "nrows (biases self) = 1" and "ncols (biases self) = ncols (weights self)"
    and "nrows error = nrows x" and "ncols error = ncols (weights self)"
  shows "cached_activations (fst (Linear_forward x self)) = Some y \<and>
    weight_gradients (fst (Linear_backward error (fst (Linear_forward x self)))) =
      array (ncols (weights self)) (ncols (weights self))
        (\<lambda>i j. \<Sum>k<nrows x. item y k i * item error k j)"
proof -
  let ?s = "fst (Linear_forward x self)"
  have s: "?s = self\<lparr>cached_activations := Some y\<rparr>"
    using assms(1) by (rule Linear_forward_Inr)
  have "ncols x = nrows (weights self)"
    using assms(1) by (rule Linear_forward_Inr_aligned)
  then have "snd (Linear_forward x self) =
    Inr (array (nrows x) (ncols (weights self))
          (\<lambda>i j. (\<Sum>k<nrows (weights self). item x i k * item (weights self) k j)
                 + item (biases self) 0 j))"
    using assms(2,3) by (simp add: Linear_forward_result Let_def)
  with assms(1) have y: "nrows y = nrows x" "ncols y = ncols (weights self)"
    by (auto simp: nrows_array ncols_array)
  have c: "cached_activations ?s = Some y"
    by (simp add: s)
  moreover have "nrows y = nrows error"
    using y assms(4) by simp
  ultimately have "Linear_backward error ?s =
    (?s\<lparr>bias_gradients := np_sum0 error,
          weight_gradients :=
            array (ncols y) (ncols error) (\<lambda>i j. \<Sum>k<nrows y. item y k i * item error k j)\<rparr>,
     np_dot error (transpose_T (weights ?s)))"
    by (rule Linear_backward_cached)
  then show ?thesis
    using c y assms(5) by simp
qed

theorem Linear_backward_weight_gradients_witness:
  "snd (Linear_forward (np_array [[1, 1]])
         (Linear_init (\<lambda>shape method. np_array [[1], [2]]) 2 1 ''xavier-average'')) =
     Inr (np_array [[3]]) \<and>
   nrows (np_array [[1]]) = nrows (np_array [[1, 1]]) \<and>
   ncols (np_array [[1]]) =
     ncols (weights (Linear_init (\<lambda>shape method. np_array [[1], [2]]) 2 1 ''xavier-average'')) \<and>
   weight_gradients (fst (Linear_backward (np_array [[1]])
         (fst (Linear_forward (np_array [[1, 1]])
           (Linear_init (\<lambda>shape method. np_array [[1], [2]]) 2 1 ''xavier-average''))))) =
     np_array [[3]]"
proof -
  have fwd: "snd (Linear_forward (np_array [[1, 1]])
         (Linear_init (\<lambda>shape method. np_array [[1], [2]]) 2 1 ''xavier-average'')) =
     Inr (np_array [[3]])"
    by (simp add: Linear_forward_result np_array_def array_def item_def Linear_init_def
        np_zeros_def Let_def lessThan_Suc numeral_2_eq_2)
  show ?thesis
    using fwd Linear_backward_weight_gradients [OF fwd, of "np_array [[1]]"]
    by (simp add: np_array_def array_def item_def Linear_init_def np_zeros_def Let_def)
qed

text \<open>
  With two inputs and one output the weight gradients after backward are the 1 by 1
  array \<open>[[3]]\<close>, and the weights have two rows.
\<close>

theorem Linear_backward_weight_gradients_shape_counterexample:
  "weight_gradients (fst (Linear_backward (np_array [[1]])
         (fst (Linear_forward (np_array [[1, 1]])
           (Linear_init (\<lambda>shape method. np_array [[1], [2]]) 2 1 ''xavier-average''))))) =
     np_array [[3]] \<and>
   nrows (np_array [[3]]) \<noteq>
     nrows (weights (Linear_init (\<lambda>shape method. np_array [[1], [2]]) 2 1 ''xavier-average''))"
proof -
  have fwd: "Linear_forward (np_array [[1, 1]])
         (Linear_init (\<lambda>shape method. np_array [[1], [2]]) 2 1 ''xavier-average'') =
     (Linear_init (\<lambda>shape method. np_array [[1], [2]]) 2 1 ''xavier-average''
        \<lparr>cached_activations := Some (np_array [[3]])\<rparr>, Inr (np_array [[3]]))"
    by (simp add: Linear_forward_result np_array_def array_def item_def Linear_init_def
        np_zeros_def Let_def lessThan_Suc numeral_2_eq_2)
  have "weight_gradients (fst (Linear_backward (np_array [[1]])
        (Linear_init (\<lambda>shape method. np_array [[1], [2]]) 2 1 ''xavier-average''
          \<lparr>cached_activations := Some (np_array [[3]])\<rparr>))) = np_array [[3]]"
    by (subst Linear_backward_cached [where c = "np_array [[3]]"])
       (simp_all add: np_array_def array_def item_def)
  moreover have "nrows (np_array [[3]]) \<noteq>
     nrows (weights (Linear_init (\<lambda>shape method. np_array [[1], [2]]) 2 1 ''xavier-average''))"
    by (simp add: np_array_def Linear_init_def Let_def)
  ultimately show ?thesis
    unfolding fwd fst_conv by (rule conjI)
qed

text \<open>
  C3, as the code has it. After \<^verbatim>\<open>backward(error)\<close>, whatever the cache holds, the bias
  gradients are the sums of the columns of \<open>error\<close> over the batch axis.
  \<^verbatim>\<open>np.sum(error, 0)\<close> drops the summed axis: the result is an array of rank 1 and of
  shape \<open>(out_size,)\<close>, not the \<open>(1, out_size)\<close> of the biases.
\<close>

theorem Linear_backward_bias_gradients:
  "bias_gradients (fst (Linear_backward error self)) =
     Array1 (map (\<lambda>j. \<Sum>i<nrows error. item error i j) [0..<ncols error]) \<and>
   shape (bias_gradients (fst (Linear_backward error self))) = [ncols error]"
  by (simp add: bias_gradients_Linear_backward np_sum0_def sum_list_upt)

text \<open>
  For one output the bias gradients after backward have shape \<open>(1,)\<close>, the biases
  \<open>(1, 1)\<close>.
\<close>

theorem Linear_backward_bias_gradients_shape_counterexample:
  "shape (bias_gradients (fst (Linear_backward (np_array [[1]])
      (fst (Linear_forward (np_array [[1, 1]])
        (Linear_init (\<lambda>shape method. np_array [[1], [2]]) 2 1 ''xavier-average'')))))) = [1] \<and>
   shape (Array2 (biases (Linear_init (\<lambda>shape method. np_array [[1], [2]]) 2 1 ''xavier-average'')))
     = [1, 1] \<and>
   shape (bias_gradients (fst (Linear_backward (np_array [[1]])
      (fst (Linear_forward (np_array [[1, 1]])
        (Linear_init (\<lambda>shape method. np_array [[1], [2]]) 2 1 ''xavier-average'')))))) \<noteq>
   shape (Array2 (biases (Linear_init (\<lambda>shape method. np_array [[1], [2]]) 2 1 ''xavier-average'')))"
  by (simp add: bias_gradients_Linear_backward np_sum0_def np_array_def Linear_init_def
      np_zeros_def array_def Let_def)

section \<open>Elementwise operations and broadcasting\<close>

lemma nrows_elementwise: "nrows (elementwise f a) = nrows a"
  by (simp add: elementwise_def nrows_array)

lemma ncols_elementwise: "ncols (elementwise f a) = ncols a"
  by (simp add: elementwise_def ncols_array)

lemma item_elementwise:
  "i < nrows a \<Longrightarrow> j < ncols a \<Longrightarrow> item (elementwise f a) i j = f (item a i j)"
  by (simp add: elementwise_def item_array)

lemma elementwise_elementwise: "elementwise f (elementwise g a) = elementwise (\<lambda>v. f (g v)) a"
  unfolding elementwise_def [of f] nrows_elementwise ncols_elementwise
  unfolding elementwise_def [of "\<lambda>v. f (g v)"]
  by (intro array_cong) (simp add: item_elementwise)

lemma np_binary_elementwise_same:
  "np_binary f (elementwise g a) (elementwise h a) =
     Inr (elementwise (\<lambda>v. f (g v) (h v)) a)"
proof -
  have "np_binary f (elementwise g a) (elementwise h a) =
      Inr (array (nrows a) (ncols a)
        (\<lambda>i j. f (item (elementwise g a) i j) (item (elementwise h a) i j)))"
    using np_binary_same_shape [of "elementwise h a" "elementwise g a" f]
    by (simp add: nrows_elementwise ncols_elementwise)
  moreover have "array (nrows a) (ncols a)
        (\<lambda>i j. f (item (elementwise g a) i j) (item (elementwise h a) i j)) =
      elementwise (\<lambda>v. f (g v) (h v)) a"
    unfolding elementwise_def [of "\<lambda>v. f (g v) (h v)"]
    by (intro array_cong) (simp add: item_elementwise)
  ultimately show ?thesis by simp
qed

lemma np_multiply_elementwise_same_shape:
  assumes "nrows e = nrows c" "ncols e = ncols c"
  shows "np_multiply e (elementwise d c) =
    Inr (array (nrows c) (ncols c) (\<lambda>i j. item e i j * d (item c i j)))"
proof -
  have "np_multiply e (elementwise d c) =
      Inr (array (nrows e) (ncols e) (\<lambda>i j. item e i j * item (elementwise d c) i j))"
    unfolding np_multiply_def using assms
    by (intro np_binary_same_shape) (simp_all add: nrows_elementwise ncols_elementwise)
  moreover have "array (nrows e) (ncols e) (\<lambda>i j. item e i j * item (elementwise d c) i j) =
      array (nrows c) (ncols c) (\<lambda>i j. item e i j * d (item c i j))"
    unfolding assms by (intro array_cong) (simp add: item_elementwise)
  ultimately show ?thesis by simp
qed

lemma np_binary_Inl:
  "(np_binary f a b = Inl ValueError) =
     (\<not> ((nrows a = nrows b \<or> nrows a = 1 \<or> nrows b = 1) \<and>
         (ncols a = ncols b \<or> ncols a = 1 \<or> ncols b = 1)))"
  by (auto simp: np_binary_def broadcast_axis_def split: sum.splits)

lemma np_binary_Inr:
  assumes "nrows a = nrows b \<or> nrows a = 1 \<or> nrows b = 1"
    and "ncols a = ncols b \<or> ncols a = 1 \<or> ncols b = 1"
  shows "\<exists>g. np_binary f a b = Inr g \<and>
          nrows g = (if nrows a = 1 then nrows b else nrows a) \<and>
          ncols g = (if ncols a = 1 then ncols b else ncols a)"
  using assms by (auto simp: np_binary_def broadcast_axis_def nrows_array ncols_array)

section \<open>The activations\<close>

lemma Sigmoid_sigmoid_Some:
  "Sigmoid_sigmoid (Some a) = Inr (elementwise (\<lambda>v. 1 / (1 + exp (- v))) a)"
  by (simp add: Sigmoid_sigmoid_def elementwise_elementwise)

lemma Tanh_tanh_Some:
  "Tanh_tanh (Some a) = Inr (elementwise (\<lambda>v. - 1 + 2 / (1 + exp (- 2 * v))) a)"
  by (simp add: Tanh_tanh_def elementwise_elementwise)

lemma Sigmoid_backward_Some:
  assumes "sigmoid_cached_input self = Some c"
  shows "Sigmoid_backward error self =
    (self, np_multiply error
       (elementwise (\<lambda>v. 1 / (1 + exp (- v)) * (1 - 1 / (1 + exp (- v)))) c))"
proof -
  have "np_multiply (elementwise (\<lambda>v. 1 / (1 + exp (- v))) c)
      (elementwise (\<lambda>v. 1 - v) (elementwise (\<lambda>v. 1 / (1 + exp (- v))) c)) =
    Inr (elementwise (\<lambda>v. 1 / (1 + exp (- v)) * (1 - 1 / (1 + exp (- v)))) c)"
    unfolding np_multiply_def elementwise_elementwise by (rule np_binary_elementwise_same)
  then show ?thesis
    using assms by (simp add: Sigmoid_backward_def Sigmoid_sigmoid_Some)
qed

lemma Tanh_backward_Some:
  assumes "tanh_cached_input self = Some c"
  shows "Tanh_backward error self =
    (self, np_multiply error
       (elementwise (\<lambda>v. 1 - (- 1 + 2 / (1 + exp (- 2 * v))) ^ 2) c))"
  using assms by (simp add: Tanh_backward_def Tanh_tanh_Some elementwise_elementwise)

lemma ReLU_backward_Some:
  assumes "relu_cached_input self = Some c"
  shows "ReLU_backward error self =
    (self, np_multiply error (elementwise (\<lambda>v. if v \<ge> 0 then 1 else 0) c))"
  using assms by (simp add: ReLU_backward_def)

lemma backward_elementwise_layer:
  assumes "\<not> trainable l" and "cache l = Some c"
  shows "\<exists>d. snd (backward error l) = np_multiply error (elementwise d c)"
proof (cases l)
  case (LinearObj s)
  with assms show ?thesis by simp
next
  case (SigmoidObj s)
  with assms show ?thesis by (auto simp: Sigmoid_backward_Some)
next
  case (TanhObj s)
  with assms show ?thesis by (auto simp: Tanh_backward_Some)
next
  case (ReLUObj s)
  with assms show ?thesis by (auto simp: ReLU_backward_Some)
qed

lemma cache_init:
  "cache (LinearObj (Linear_init initialise_weights in_size out_size initialisation_method)) = None"
  "cache (SigmoidObj Sigmoid_init) = None"
  "cache (TanhObj Tanh_init) = None"
  "cache (ReLUObj ReLU_init) = None"
  by (simp_all add: Linear_init_def Let_def Sigmoid_init_def Tanh_init_def ReLU_init_def)

text \<open>
  C7. \<^verbatim>\<open>Sigmoid.forward(x)\<close> stores the raw input \<open>x\<close> in the cache and returns the
  array of the elements \<open>1 / (1 + exp (- x[i, j]))\<close>. A following
  \<^verbatim>\<open>backward(error)\<close>, for an \<open>error\<close> of the shape of \<open>x\<close>, returns the array of the
  elements \<open>error[i, j] * s * (1 - s)\<close>, where \<open>s\<close> is the sigmoid of the cached
  \<open>x[i, j]\<close>, computed again from the cache.
\<close>

theorem Sigmoid_forward_backward:
  "Sigmoid_forward x self =
     (self\<lparr>sigmoid_cached_input := Some x\<rparr>,
      Inr (array (nrows x) (ncols x) (\<lambda>i j. 1 / (1 + exp (- item x i j))))) \<and>
   (nrows error = nrows x \<and> ncols error = ncols x \<longrightarrow>
      snd (Sigmoid_backward error (fst (Sigmoid_forward x self))) =
        Inr (array (nrows x) (ncols x)
              (\<lambda>i j. item error i j * (1 / (1 + exp (- item x i j)))
                                   * (1 - 1 / (1 + exp (- item x i j))))))"
proof (intro conjI impI)
  show "Sigmoid_forward x self =
     (self\<lparr>sigmoid_cached_input := Some x\<rparr>,
      Inr (array (nrows x) (ncols x) (\<lambda>i j. 1 / (1 + exp (- item x i j)))))"
    by (simp add: Sigmoid_forward_def Sigmoid_sigmoid_Some Let_def elementwise_def)
next
  assume sh: "nrows error = nrows x \<and> ncols error = ncols x"
  have "fst (Sigmoid_forward x self) = self\<lparr>sigmoid_cached_input := Some x\<rparr>"
    by (simp add: Sigmoid_forward_def Let_def)
  then have "snd (Sigmoid_backward error (fst (Sigmoid_forward x self))) =
      np_multiply error
       (elementwise (\<lambda>v. 1 / (1 + exp (- v)) * (1 - 1 / (1 + exp (- v)))) x)"
    by (simp add: Sigmoid_backward_Some)
  also have "\<dots> = Inr (array (nrows x) (ncols x)
      (\<lambda>i j. item error i j * (1 / (1 + exp (- item x i j)) * (1 - 1 / (1 + exp (- item x i j))))))"
    using sh by (simp add: np_multiply_elementwise_same_shape)
  also have "array (nrows x) (ncols x)
      (\<lambda>i j. item error i j * (1 / (1 + exp (- item x i j)) * (1 - 1 / (1 + exp (- item x i j))))) =
     array (nrows x) (ncols x)
              (\<lambda>i j. item error i j * (1 / (1 + exp (- item x i j)))
                                   * (1 - 1 / (1 + exp (- item x i j))))"
    by (intro array_cong) (simp only: mult.assoc)
  finally show "snd (Sigmoid_backward error (fst (Sigmoid_forward x self))) =
        Inr (array (nrows x) (ncols x)
              (\<lambda>i j. item error i j * (1 / (1 + exp (- item x i j)))
                                   * (1 - 1 / (1 + exp (- item x i j)))))" .
qed

theorem Sigmoid_forward_backward_witness:
  "Sigmoid_forward (np_array [[0]]) Sigmoid_init =
     (\<lparr>sigmoid_cached_input = Some (np_array [[0]])\<rparr>, Inr (np_array [[1 / 2]])) \<and>
   nrows (np_array [[2]]) = nrows (np_array [[0]]) \<and>
   ncols (np_array [[2]]) = ncols (np_array [[0]]) \<and>
   snd (Sigmoid_backward (np_array [[2]]) (fst (Sigmoid_forward (np_array [[0]]) Sigmoid_init))) =
     Inr (np_array [[1 / 2]])"
  using Sigmoid_forward_backward [of "np_array [[0]]" Sigmoid_init "np_array [[2]]"]
  by (auto simp: np_array_def array_def item_def Sigmoid_init_def)

text \<open>
  C8. \<^verbatim>\<open>ReLU.forward(x)\<close> returns \<open>x[i, j]\<close> where it is positive and 0 elsewhere. A
  following \<^verbatim>\<open>backward(error)\<close>, for an \<open>error\<close> of the shape of \<open>x\<close>, returns
  \<open>error[i, j]\<close> unchanged where \<open>x[i, j]\<close> is positive, 0 where it is negative, and
  \<open>error[i, j] * 1\<close> where it is exactly 0: the gradient passes through at zero.
\<close>

theorem ReLU_piecewise:
  "ReLU_forward x self =
     (self\<lparr>relu_cached_input := Some x\<rparr>,
      Inr (array (nrows x) (ncols x) (\<lambda>i j. if 0 < item x i j then item x i j else 0))) \<and>
   (nrows error = nrows x \<and> ncols error = ncols x \<longrightarrow>
      snd (ReLU_backward error (fst (ReLU_forward x self))) =
        Inr (array (nrows x) (ncols x)
              (\<lambda>i j. if 0 < item x i j then item error i j
                     else if item x i j < 0 then 0
                     else item error i j * 1)))"
proof (intro conjI impI)
  have "elementwise (max 0) x =
      array (nrows x) (ncols x) (\<lambda>i j. if 0 < item x i j then item x i j else 0)"
    unfolding elementwise_def by (intro array_cong) (simp add: max_def)
  then show "ReLU_forward x self =
     (self\<lparr>relu_cached_input := Some x\<rparr>,
      Inr (array (nrows x) (ncols x) (\<lambda>i j. if 0 < item x i j then item x i j else 0)))"
    by (simp add: ReLU_forward_def Let_def)
next
  assume sh: "nrows error = nrows x \<and> ncols error = ncols x"
  have "fst (ReLU_forward x self) = self\<lparr>relu_cached_input := Some x\<rparr>"
    by (simp add: ReLU_forward_def Let_def)
  then have "snd (ReLU_backward error (fst (ReLU_forward x self))) =
      np_multiply error (elementwise (\<lambda>v. if v \<ge> 0 then 1 else 0) x)"
    by (simp add: ReLU_backward_Some)
  also have "\<dots> = Inr (array (nrows x) (ncols x)
      (\<lambda>i j. item error i j * (if item x i j \<ge> 0 then 1 else 0)))"
    using sh by (simp add: np_multiply_elementwise_same_shape)
  also have "array (nrows x) (ncols x)
      (\<lambda>i j. item error i j * (if item x i j \<ge> 0 then 1 else 0)) =
     array (nrows x) (ncols x)
              (\<lambda>i j. if 0 < item x i j then item error i j
                     else if item x i j < 0 then 0
                     else item error i j * 1)"
    by (intro array_cong) simp
  finally show "snd (ReLU_backward error (fst (ReLU_forward x self))) =
        Inr (array (nrows x) (ncols x)
              (\<lambda>i j. if 0 < item x i j then item error i j
                     else if item x i j < 0 then 0
                     else item error i j * 1))" .
qed

theorem ReLU_piecewise_witness:
  "ReLU_forward (np_array [[3, - 4, 0]]) ReLU_init =
     (\<lparr>relu_cached_input = Some (np_array [[3, - 4, 0]])\<rparr>, Inr (np_array [[3, 0, 0]])) \<and>
   nrows (np_array [[5, 6, 7]]) = nrows (np_array [[3, - 4, 0]]) \<and>
   ncols (np_array [[5, 6, 7]]) = ncols (np_array [[3, - 4, 0]]) \<and>
   snd (ReLU_backward (np_array [[5, 6, 7]])
         (fst (ReLU_forward (np_array [[3, - 4, 0]]) ReLU_init))) =
     Inr (np_array [[5, 0, 7]])"
  using ReLU_piecewise [of "np_array [[3, - 4, 0]]" ReLU_init "np_array [[5, 6, 7]]"]
  by (auto simp: np_array_def array_def item_def ReLU_init_def upt_conv_Cons)

section \<open>Failures\<close>

text \<open>
  C5. An object whose cache attribute is \<^verbatim>\<open>None\<close>, which is how each constructor leaves
  it (\<open>cache_init\<close>) and how it stays until a forward call succeeds, fails on
  \<^verbatim>\<open>backward\<close> and returns nothing: \<^verbatim>\<open>Linear\<close> raises AttributeError on \<^verbatim>\<open>None.T\<close>,
  the three activations raise TypeError on the arithmetic or the comparison with
  \<^verbatim>\<open>None\<close>.
\<close>

theorem backward_before_forward_raises:
  assumes "cache l = None"
  shows "snd (backward error l) =
    Inl (case l of LinearObj s \<Rightarrow> AttributeError | SigmoidObj s \<Rightarrow> TypeError
         | TanhObj s \<Rightarrow> TypeError | ReLUObj s \<Rightarrow> TypeError)"
proof (cases l)
  case (LinearObj s)
  with assms show ?thesis by (simp add: Linear_backward_no_cache)
next
  case (SigmoidObj s)
  with assms show ?thesis by (simp add: Sigmoid_backward_def Sigmoid_sigmoid_def)
next
  case (TanhObj s)
  with assms show ?thesis by (simp add: Tanh_backward_def Tanh_tanh_def)
next
  case (ReLUObj s)
  with assms show ?thesis by (simp add: ReLU_backward_def)
qed

theorem backward_before_forward_raises_witness:
  "cache (LinearObj (Linear_init (\<lambda>shape method. np_array [[1], [2]]) 2 1 ''xavier-average''))
     = None \<and>
   snd (backward (np_array [[1]])
     (LinearObj (Linear_init (\<lambda>shape method. np_array [[1], [2]]) 2 1 ''xavier-average'')))
     = Inl AttributeError \<and>
   cache (SigmoidObj Sigmoid_init) = None \<and>
   snd (backward (np_array [[1]]) (SigmoidObj Sigmoid_init)) = Inl TypeError \<and>
   cache (TanhObj Tanh_init) = None \<and>
   snd (backward (np_array [[1]]) (TanhObj Tanh_init)) = Inl TypeError \<and>
   cache (ReLUObj ReLU_init) = None \<and>
   snd (backward (np_array [[1]]) (ReLUObj ReLU_init)) = Inl TypeError"
  using backward_before_forward_raises [of
      "LinearObj (Linear_init (\<lambda>shape method. np_array [[1], [2]]) 2 1 ''xavier-average'')"
      "np_array [[1]]"]
    backward_before_forward_raises [of "SigmoidObj Sigmoid_init" "np_array [[1]]"]
    backward_before_forward_raises [of "TanhObj Tanh_init" "np_array [[1]]"]
    backward_before_forward_raises [of "ReLUObj ReLU_init" "np_array [[1]]"]
  by (simp add: Linear_init_def Let_def Sigmoid_init_def Tanh_init_def ReLU_init_def)

text \<open>
  C6, as the code has it. \<^verbatim>\<open>Linear.forward\<close> on an input whose second axis differs from
  the first axis of the weights raises ValueError and leaves the object as it was. The
  \<^verbatim>\<open>backward\<close> of an activation with cached input \<open>c\<close> multiplies \<open>error\<close> and an
  array of the shape of \<open>c\<close> under numpy broadcasting: it raises ValueError exactly when,
  on some axis, the two lengths differ and neither is 1; when the lengths differ only
  where one of them is 1, it returns the broadcast result and raises nothing.
\<close>

theorem shape_mismatch_raises:
  "(ncols x \<noteq> nrows (weights self) \<longrightarrow> Linear_forward x self = (self, Inl ValueError)) \<and>
   (\<not> trainable l \<and> cache l = Some c \<longrightarrow>
      (snd (backward error l) = Inl ValueError) =
        (\<not> ((nrows error = nrows c \<or> nrows error = 1 \<or> nrows c = 1) \<and>
            (ncols error = ncols c \<or> ncols error = 1 \<or> ncols c = 1))) \<and>
      ((nrows error = nrows c \<or> nrows error = 1 \<or> nrows c = 1) \<and>
       (ncols error = ncols c \<or> ncols error = 1 \<or> ncols c = 1) \<longrightarrow>
         (\<exists>g. snd (backward error l) = Inr g \<and>
              nrows g = (if nrows error = 1 then nrows c else nrows error) \<and>
              ncols g = (if ncols error = 1 then ncols c else ncols error))))"
proof (intro conjI impI)
  assume "ncols x \<noteq> nrows (weights self)"
  then show "Linear_forward x self = (self, Inl ValueError)"
    by (simp add: Linear_forward_def np_dot_not_aligned)
next
  assume "\<not> trainable l \<and> cache l = Some c"
  then obtain d where d: "snd (backward error l) = np_multiply error (elementwise d c)"
    using backward_elementwise_layer by blast
  show "(snd (backward error l) = Inl ValueError) =
        (\<not> ((nrows error = nrows c \<or> nrows error = 1 \<or> nrows c = 1) \<and>
            (ncols error = ncols c \<or> ncols error = 1 \<or> ncols c = 1)))"
    unfolding d np_multiply_def np_binary_Inl nrows_elementwise ncols_elementwise ..
next
  assume "\<not> trainable l \<and> cache l = Some c"
  then obtain d where d: "snd (backward error l) = np_multiply error (elementwise d c)"
    using backward_elementwise_layer by blast
  assume "(nrows error = nrows c \<or> nrows error = 1 \<or> nrows c = 1) \<and>
       (ncols error = ncols c \<or> ncols error = 1 \<or> ncols c = 1)"
  then have rows: "nrows error = nrows (elementwise d c) \<or> nrows error = 1
        \<or> nrows (elementwise d c) = 1"
    and cols: "ncols error = ncols (elementwise d c) \<or> ncols error = 1
        \<or> ncols (elementwise d c) = 1"
    by (simp_all add: nrows_elementwise ncols_elementwise)
  from np_binary_Inr [OF rows cols]
  show "\<exists>g. snd (backward error l) = Inr g \<and>
              nrows g = (if nrows error = 1 then nrows c else nrows error) \<and>
              ncols g = (if ncols error = 1 then ncols c else ncols error)"
    unfolding d np_multiply_def nrows_elementwise ncols_elementwise .
qed

theorem shape_mismatch_raises_witness:
  "ncols (np_array [[1]]) \<noteq>
     nrows (weights (Linear_init (\<lambda>shape method. np_array [[1], [2]]) 2 1 ''xavier-average'')) \<and>
   snd (Linear_forward (np_array [[1]])
     (Linear_init (\<lambda>shape method. np_array [[1], [2]]) 2 1 ''xavier-average'')) = Inl ValueError \<and>
   cache (TanhObj \<lparr>tanh_cached_input = Some (np_array [[0], [0]])\<rparr>) = Some (np_array [[0], [0]]) \<and>
   snd (backward (np_array [[1], [1], [1]])
         (TanhObj \<lparr>tanh_cached_input = Some (np_array [[0], [0]])\<rparr>)) = Inl ValueError \<and>
   (\<exists>g. snd (backward (np_array [[1]])
         (TanhObj \<lparr>tanh_cached_input = Some (np_array [[0], [0]])\<rparr>)) = Inr g \<and> nrows g = 2
         \<and> ncols g = 1)"
  using shape_mismatch_raises [of "np_array [[1]]"
      "Linear_init (\<lambda>shape method. np_array [[1], [2]]) 2 1 ''xavier-average''"
      "TanhObj \<lparr>tanh_cached_input = Some (np_array [[0], [0]])\<rparr>" "np_array [[0], [0]]"
      "np_array [[1], [1], [1]]"]
    shape_mismatch_raises [of "np_array [[1]]"
      "Linear_init (\<lambda>shape method. np_array [[1], [2]]) 2 1 ''xavier-average''"
      "TanhObj \<lparr>tanh_cached_input = Some (np_array [[0], [0]])\<rparr>" "np_array [[0], [0]]"
      "np_array [[1]]"]
  by (simp add: np_array_def Linear_init_def Let_def numeral_2_eq_2)

text \<open>
  An error of shape \<open>(1, 1)\<close> against a cached input of shape \<open>(2, 1)\<close>: the shapes
  differ and \<^verbatim>\<open>Sigmoid.backward\<close> returns a broadcast array of two rows.
\<close>

theorem shape_mismatch_broadcast_counterexample:
  "nrows (np_array [[1]]) \<noteq> nrows (np_array [[0], [0]]) \<and>
   snd (Sigmoid_backward (np_array [[1]])
         (fst (Sigmoid_forward (np_array [[0], [0]]) Sigmoid_init))) =
     Inr (np_array [[1 / 4], [1 / 4]])"
  by (simp add: Sigmoid_forward_def Sigmoid_backward_Some Let_def np_multiply_def np_binary_def
      broadcast_axis_def broadcast_index_def elementwise_def np_array_def array_def item_def
      upt_conv_Cons)

section \<open>Frame and repetition\<close>

lemma weights_Linear_call: "weights (fst (Linear_call c self)) = weights self"
  by (cases c)
     (auto simp: Linear_forward_def Linear_backward_def Let_def split: sum.splits option.splits)

lemma biases_Linear_call: "biases (fst (Linear_call c self)) = biases self"
  by (cases c)
     (auto simp: Linear_forward_def Linear_backward_def Let_def split: sum.splits option.splits)

lemma weights_run_Linear: "weights (run_Linear cs self) = weights self"
  by (induction cs arbitrary: self) (simp_all add: weights_Linear_call)

lemma biases_run_Linear: "biases (run_Linear cs self) = biases self"
  by (induction cs arbitrary: self) (simp_all add: biases_Linear_call)

text \<open>
  C9. Neither \<^verbatim>\<open>Linear.forward\<close> nor \<^verbatim>\<open>Linear.backward\<close> changes the weights or the
  biases, whether the call returns or raises; after any sequence of forward and backward
  calls on a constructed layer the weights are what \<^verbatim>\<open>initialise_weights\<close> returned
  and the biases are the zeros of the constructor.
\<close>

theorem Linear_parameters_unchanged:
  "weights (fst (Linear_forward x self)) = weights self \<and>
   biases (fst (Linear_forward x self)) = biases self \<and>
   weights (fst (Linear_backward error self)) = weights self \<and>
   biases (fst (Linear_backward error self)) = biases self \<and>
   weights (run_Linear cs (Linear_init initialise_weights in_size out_size initialisation_method)) =
     initialise_weights (in_size, out_size) initialisation_method \<and>
   biases (run_Linear cs (Linear_init initialise_weights in_size out_size initialisation_method)) =
     np_zeros 1 out_size"
proof -
  have "weights (fst (Linear_call (Forward x) self)) = weights self"
    and "biases (fst (Linear_call (Forward x) self)) = biases self"
    and "weights (fst (Linear_call (Backward error) self)) = weights self"
    and "biases (fst (Linear_call (Backward error) self)) = biases self"
    by (rule weights_Linear_call biases_Linear_call)+
  moreover have
    "weights (Linear_init initialise_weights in_size out_size initialisation_method) =
       initialise_weights (in_size, out_size) initialisation_method"
    "biases (Linear_init initialise_weights in_size out_size initialisation_method) =
       np_zeros 1 out_size"
    by (simp_all add: Linear_init_def Let_def)
  ultimately show ?thesis
    by (simp add: weights_run_Linear biases_run_Linear)
qed

lemma Linear_backward_twice:
  "Linear_backward error (fst (Linear_backward error self)) = Linear_backward error self"
  by (simp add: Linear_backward_def Let_def split: option.split sum.split)

lemma Sigmoid_backward_fst: "fst (Sigmoid_backward error self) = self"
  by (simp add: Sigmoid_backward_def split: sum.split)

lemma Tanh_backward_fst: "fst (Tanh_backward error self) = self"
  by (simp add: Tanh_backward_def split: sum.split)

lemma ReLU_backward_fst: "fst (ReLU_backward error self) = self"
  by (simp add: ReLU_backward_def split: option.split)

lemma cached_activations_Linear_backward:
  "cached_activations (fst (Linear_backward error self)) = cached_activations self"
  by (simp add: Linear_backward_def Let_def split: option.split sum.split)

text \<open>
  C10. For every layer in every state, so also after a successful forward call, a second
  \<^verbatim>\<open>backward\<close> with the same upstream gradient returns what the first returned and
  leaves the object as the first left it; \<^verbatim>\<open>backward\<close> does not touch the cache.
\<close>

theorem backward_repeatable:
  "backward error (fst (backward error l)) = backward error l \<and>
   cache (fst (backward error l)) = cache l"
proof (cases l)
  case (LinearObj s)
  then show ?thesis
    by (simp add: Linear_backward_twice cached_activations_Linear_backward)
next
  case (SigmoidObj s)
  then show ?thesis by (simp add: Sigmoid_backward_fst)
next
  case (TanhObj s)
  then show ?thesis by (simp add: Tanh_backward_fst)
next
  case (ReLUObj s)
  then show ?thesis by (simp add: ReLU_backward_fst)
qed

end
